theory Spec2Isabelle
  imports Complex_Main
begin


section \<open>Behavior scorecard: the score transform and the risk labels\<close>

text \<open>
  The repository has two Python files: the Power BI scoring script
  (\<^verbatim>\<open>Powerbi_predict.py\<close>) and the Streamlit dashboard (\<^verbatim>\<open>app.py\<close>).
  Python floats are modelled as real numbers, so rounding is not part of the model.
  Every exception the scalar code can raise is a value of \<open>error\<close>; so is a result
  of numpy that is not a real number (\<open>-inf\<close>, \<open>inf\<close> or \<open>nan\<close>).
\<close>

datatype error =
    ZeroDivisionError
  | ValueError
  | NonFinite
  | TypeError
  | KeyError
  | AttributeError
  | FileNotFoundError string
  | OtherException string
  | InvalidRef

text \<open>Statements run in sequence; the first one that raises ends the run.\<close>

definition err_bind :: "error + 'a \<Rightarrow> ('a \<Rightarrow> error + 'b) \<Rightarrow> error + 'b" where
  "err_bind m f = (case m of Inl e \<Rightarrow> Inl e | Inr x \<Rightarrow> f x)"

fun mapM_err :: "('a \<Rightarrow> error + 'b) \<Rightarrow> 'a list \<Rightarrow> error + 'b list" where
  "mapM_err f [] = Inr []"
| "mapM_err f (x # xs) =
     (case f x of
        Inl e \<Rightarrow> Inl e
      | Inr y \<Rightarrow> (case mapM_err f xs of Inl e \<Rightarrow> Inl e | Inr ys \<Rightarrow> Inr (y # ys)))"

subsection \<open>Python and numpy primitives\<close>

text \<open>\<^verbatim>\<open>a / b\<close> on Python floats raises ZeroDivisionError when \<open>b\<close> is zero.\<close>

definition py_truediv :: "real \<Rightarrow> real \<Rightarrow> error + real" where
  "py_truediv a b = (if b = 0 then Inl ZeroDivisionError else Inr (a / b))"

text \<open>\<^verbatim>\<open>math.log(x)\<close> raises ValueError unless \<open>x\<close> is positive.\<close>

definition math_log :: "real \<Rightarrow> error + real" where
  "math_log x = (if x \<le> 0 then Inl ValueError else Inr (ln x))"

text \<open>
  \<^verbatim>\<open>np.log(x)\<close> does not raise: it returns \<open>-inf\<close> at zero and \<open>nan\<close> below zero,
  and every later operation stays non-finite. The model records that as \<open>NonFinite\<close>.
\<close>

definition np_log :: "real \<Rightarrow> error + real" where
  "np_log x = (if x \<le> 0 then Inl NonFinite else Inr (ln x))"

subsection \<open>Powerbi_predict.py: constants and compute_score\<close>

definition SCORE_REF :: real where "SCORE_REF = 600"
definition PDO :: real where "PDO = 20"
definition ODDS :: real where "ODDS = 20"

text \<open>\<^verbatim>\<open>B = PDO / math.log(2)\<close> and \<^verbatim>\<open>A = SCORE_REF + B * math.log(ODDS)\<close>;
  both logarithms have a positive argument, so neither raises.\<close>

definition B_powerbi :: real where
  "B_powerbi = PDO / ln 2"

definition A_powerbi :: real where
  "A_powerbi = SCORE_REF + B_powerbi * ln ODDS"

text \<open>
  \<^verbatim>\<open>
  def compute_score(pd):
      pd = max(0.001, min(0.999, pd))
      odds = pd / (1 - pd)
      return A - B * math.log(odds)
  \<close>
\<close>

definition compute_score :: "real \<Rightarrow> error + real" where
  "compute_score pd0 =
     (let pd = max 0.001 (min 0.999 pd0) in
      case py_truediv pd (1 - pd) of
        Inl e \<Rightarrow> Inl e
      | Inr odds \<Rightarrow>
          (case math_log odds of
             Inl e \<Rightarrow> Inl e
           | Inr l \<Rightarrow> Inr (A_powerbi - B_powerbi * l)))"

text \<open>The first line of \<open>compute_score\<close>, named so that the proofs can refer to it.\<close>

definition clamp_powerbi :: "real \<Rightarrow> real" where
  "clamp_powerbi p = max 0.001 (min 0.999 p)"

text \<open>The label of a score, the lambda applied to the column \<open>Behavior_Score\<close>:
  \<^verbatim>\<open>lambda s: "Low" if s >= 700 else ("Medium" if s >= 600 else "High")\<close>\<close>

definition Risk_Category_lambda :: "real \<Rightarrow> string" where
  "Risk_Category_lambda s =
     (if s \<ge> 700 then ''Low'' else (if s \<ge> 600 then ''Medium'' else ''High''))"

subsection \<open>app.py: constants, calculate_behavior_score and risk_category\<close>

definition A_app :: real where "A_app = 686.4385618977473"
definition B_app :: real where "B_app = 28.85390081777927"

text \<open>
  \<^verbatim>\<open>
  def calculate_behavior_score(pd_value):
      return A - B * np.log(pd_value / (1 - pd_value))
  \<close>
  The main section applies it to each cell of the column \<open>PD\<close> with
  \<^verbatim>\<open>Series.apply\<close>, which passes Python floats: the division raises at \<open>pd_value = 1\<close>.
\<close>

definition calculate_behavior_score :: "real \<Rightarrow> error + real" where
  "calculate_behavior_score pd_value =
     (case py_truediv pd_value (1 - pd_value) of
        Inl e \<Rightarrow> Inl e
      | Inr odds \<Rightarrow>
          (case np_log odds of
             Inl e \<Rightarrow> Inl e
           | Inr l \<Rightarrow> Inr (A_app - B_app * l)))"

text \<open>
  \<^verbatim>\<open>
  def risk_category(score):
      if score < 580:   return "High Risk"
      elif score < 700: return "Medium Risk"
      else:             return "Low Risk"
  \<close>
\<close>

definition risk_category :: "real \<Rightarrow> string" where
  "risk_category score =
     (if score < 580 then ''High Risk''
      else if score < 700 then ''Medium Risk''
      else ''Low Risk'')"

text \<open>
  The sidebar's prediction (lines 78 to 87 of \<^verbatim>\<open>app.py\<close>) clamps its estimate
  before it calls the transform, and labels the score with the same thresholds:
  \<^verbatim>\<open>
  pd_pred = max(min(pd_pred, 0.99), 0.01)
  behavior_score = calculate_behavior_score(pd_pred)
  \<close>
\<close>

definition sidebar_predict :: "real \<Rightarrow> error + (real \<times> real \<times> string)" where
  "sidebar_predict pd_pred0 =
     (let pd_pred = max (min pd_pred0 0.99) 0.01 in
      case calculate_behavior_score pd_pred of
        Inl e \<Rightarrow> Inl e
      | Inr behavior_score \<Rightarrow>
          Inr (pd_pred, behavior_score,
               if behavior_score < 580 then ''High Risk''
               else if behavior_score < 700 then ''Medium Risk''
               else ''Low Risk''))"

section \<open>Tables, files and the two scripts\<close>

subsection \<open>DataFrames\<close>

text \<open>
  A cell of a pandas DataFrame is a finite float, a string, or a float that is not a
  real number (\<open>nan\<close>, \<open>inf\<close>, \<open>-inf\<close>). A DataFrame has an index of \<open>nrows\<close>
  entries and a list of named columns, in order. In pandas every column has exactly
  \<open>nrows\<close> cells; tables read from a CSV file or passed by Power BI also have
  distinct column names. \<open>wf_df\<close> states both.
\<close>

datatype cell = Num real | Str string | NonFiniteNum

record dataframe =
  nrows :: nat
  columns :: "(string \<times> cell list) list"

definition column_names :: "dataframe \<Rightarrow> string list" where
  "column_names df = map fst (columns df)"


text \<open>\<^verbatim>\<open>df[name]\<close> raises KeyError when no column has that name.\<close>

definition df_getitem :: "dataframe \<Rightarrow> string \<Rightarrow> error + cell list" where
  "df_getitem df name =
     (case map_of (columns df) name of None \<Rightarrow> Inl KeyError | Some c \<Rightarrow> Inr c)"

text \<open>
  \<^verbatim>\<open>df[name] = values\<close>: an existing column of that name is overwritten in its place,
  otherwise the column is appended on the right.
\<close>

definition assign_column :: "dataframe \<Rightarrow> string \<Rightarrow> cell list \<Rightarrow> dataframe" where
  "assign_column df name vals =
     (if name \<in> set (column_names df)
      then df\<lparr>columns := map (\<lambda>c. if fst c = name then (name, vals) else c) (columns df)\<rparr>
      else df\<lparr>columns := columns df @ [(name, vals)]\<rparr>)"

text \<open>
  pandas checks the length of the values against the index and raises ValueError on a
  mismatch. A frame whose index is empty takes its index from the values instead, and
  its old columns are filled with \<open>nan\<close>.
\<close>

definition df_setitem :: "dataframe \<Rightarrow> string \<Rightarrow> cell list \<Rightarrow> error + dataframe" where
  "df_setitem df name vals =
     (if length vals = nrows df then Inr (assign_column df name vals)
      else if nrows df = 0 then
        Inr (assign_column
               \<lparr>nrows = length vals,
                columns = map (\<lambda>c. (fst c, replicate (length vals) NonFiniteNum)) (columns df)\<rparr>
               name vals)
      else Inl ValueError)"

text \<open>\<^verbatim>\<open>df.values\<close>: the cells row by row. In a well-formed frame every index
  used here is within its column.\<close>

definition df_values :: "dataframe \<Rightarrow> cell list list" where
  "df_values df = map (\<lambda>i. map (\<lambda>c. snd c ! i) (columns df)) [0..<nrows df]"

subsection \<open>Objects on the heap\<close>

text \<open>
  A DataFrame is a mutable object and a Python variable holds a reference to it. The
  heap is the list of the DataFrame objects allocated so far; a reference is an index
  into it. A statement that works on DataFrames takes the heap and returns its result,
  or the exception it raised, together with the heap it leaves. Python has no dangling
  reference; the model answers \<open>InvalidRef\<close> to one.
\<close>

type_synonym ref = nat
type_synonym heap = "dataframe list"
type_synonym 'a prog = "heap \<Rightarrow> (error + 'a) \<times> heap"

definition prog_bind :: "'a prog \<Rightarrow> ('a \<Rightarrow> 'b prog) \<Rightarrow> 'b prog" where
  "prog_bind m f h = (case m h of (Inl e, h') \<Rightarrow> (Inl e, h') | (Inr x, h') \<Rightarrow> f x h')"

definition prog_return :: "'a \<Rightarrow> 'a prog" where
  "prog_return x h = (Inr x, h)"

text \<open>A computation that does not touch the heap.\<close>

definition prog_lift :: "error + 'a \<Rightarrow> 'a prog" where
  "prog_lift r h = (r, h)"

definition heap_get :: "heap \<Rightarrow> ref \<Rightarrow> error + dataframe" where
  "heap_get h r = (if r < length h then Inr (h ! r) else Inl InvalidRef)"

text \<open>\<^verbatim>\<open>df.copy()\<close> allocates a new object with the same contents.\<close>

definition df_copy :: "ref \<Rightarrow> ref prog" where
  "df_copy r h =
     (case heap_get h r of
        Inl e \<Rightarrow> (Inl e, h)
      | Inr df \<Rightarrow> (Inr (length h), h @ [df]))"

text \<open>\<^verbatim>\<open>df[name] = values\<close> changes the object the reference points to.\<close>

definition heap_setitem :: "ref \<Rightarrow> string \<Rightarrow> cell list \<Rightarrow> unit prog" where
  "heap_setitem r name vals h =
     (case heap_get h r of
        Inl e \<Rightarrow> (Inl e, h)
      | Inr df \<Rightarrow>
          (case df_setitem df name vals of
             Inl e \<Rightarrow> (Inl e, h)
           | Inr df' \<Rightarrow> (Inr (), h[r := df'])))"

definition heap_getitem :: "ref \<Rightarrow> string \<Rightarrow> cell list prog" where
  "heap_getitem r name h = (err_bind (heap_get h r) (\<lambda>df. df_getitem df name), h)"

definition heap_values :: "ref \<Rightarrow> cell list list prog" where
  "heap_values r h = (err_bind (heap_get h r) (\<lambda>df. Inr (df_values df)), h)"

text \<open>
  A program keeps the first \<open>n\<close> objects when, started on a heap that has them, it
  leaves them in place and unchanged, whether it returns or raises.
\<close>

definition keeps :: "nat \<Rightarrow> 'a prog \<Rightarrow> bool" where
  "keeps n m \<longleftrightarrow>
     (\<forall>h. n \<le> length h \<longrightarrow> n \<le> length (snd (m h)) \<and> take n (snd (m h)) = take n h)"

subsection \<open>Powerbi_predict.py: loading the artifacts\<close>

text \<open>
  \<^verbatim>\<open>joblib.load\<close> returns whatever object the file holds. The classifier and the
  scaler are external code: the model takes them as functions that may raise.
  A classifier maps the feature rows to the second column of \<^verbatim>\<open>predict_proba\<close>.
\<close>

datatype obj =
    Classifier "cell list list \<Rightarrow> error + real list"
  | Scaler "cell list list \<Rightarrow> error + cell list list"
  | Other

definition MODEL_FILE :: string where "MODEL_FILE = ''behavior_model.pkl''"
definition SCALER_FILE :: string where "SCALER_FILE = ''scaler.pkl''"

text \<open>
  The script sees the file system through two library calls. \<^verbatim>\<open>os.path.exists\<close>
  answers whether a path exists. \<^verbatim>\<open>joblib.load\<close> is external code and may raise any
  exception; in particular it raises FileNotFoundError for a path that
  \<^verbatim>\<open>os.path.exists\<close> has just accepted when the file is removed in between, or when
  the pickle refers to a companion file that is missing.
\<close>

record environment =
  os_path_exists :: "string \<Rightarrow> bool"
  joblib_load :: "string \<Rightarrow> error + obj"

text \<open>Two environments for the examples: no file at all; and a model file that
  exists while loading it raises FileNotFoundError.\<close>

definition env_empty :: environment where
  "env_empty =
     \<lparr>os_path_exists = (\<lambda>path. False),
      joblib_load = (\<lambda>path. Inl (FileNotFoundError path))\<rparr>"

definition env_stale :: environment where
  "env_stale =
     \<lparr>os_path_exists = (\<lambda>path. path = MODEL_FILE),
      joblib_load = (\<lambda>path. Inl (FileNotFoundError path))\<rparr>"

definition env_model_only :: "obj \<Rightarrow> environment" where
  "env_model_only ob =
     \<lparr>os_path_exists = (\<lambda>path. path = MODEL_FILE),
      joblib_load = (\<lambda>path. if path = MODEL_FILE then Inr ob
                              else Inl (FileNotFoundError path))\<rparr>"

text \<open>The module globals \<^verbatim>\<open>_model\<close> and \<^verbatim>\<open>_scaler\<close> after the import.\<close>

record module_state =
  model :: obj
  scaler :: "obj option"

text \<open>
  \<^verbatim>\<open>
  if os.path.exists(MODEL_FILE):
      _model = joblib.load(MODEL_FILE)
  else:
      raise FileNotFoundError(f"Model file not found: {MODEL_FILE}")

  if os.path.exists(SCALER_FILE):
      _scaler = joblib.load(SCALER_FILE)
  \<close>
\<close>

definition module_init :: "environment \<Rightarrow> error + module_state" where
  "module_init env =
     (if os_path_exists env MODEL_FILE then
        err_bind (joblib_load env MODEL_FILE) (\<lambda>m.
          if os_path_exists env SCALER_FILE then
            err_bind (joblib_load env SCALER_FILE) (\<lambda>s. Inr \<lparr>model = m, scaler = Some s\<rparr>)
          else Inr \<lparr>model = m, scaler = None\<rparr>)
      else Inl (FileNotFoundError (''Model file not found: '' @ MODEL_FILE)))"

subsection \<open>Powerbi_predict.py: powerbi_predict\<close>

definition predict_proba :: "obj \<Rightarrow> cell list list \<Rightarrow> error + real list" where
  "predict_proba ob X = (case ob of Classifier f \<Rightarrow> f X | _ \<Rightarrow> Inl AttributeError)"

definition transform :: "obj \<Rightarrow> cell list list \<Rightarrow> error + cell list list" where
  "transform ob X = (case ob of Scaler g \<Rightarrow> g X | _ \<Rightarrow> Inl AttributeError)"

text \<open>An external classifier for the examples: it gives every row the probability \<open>p\<close>.\<close>

definition constant_classifier :: "real \<Rightarrow> obj" where
  "constant_classifier p = Classifier (\<lambda>X. Inr (map (\<lambda>row. p) X))"

text \<open>Lines 61 to 67: the optional scaling and the prediction of PD.\<close>

definition predict_pd :: "module_state \<Rightarrow> cell list list \<Rightarrow> error + real list" where
  "predict_pd st X_values0 =
     err_bind (case scaler st of
                 Some sc \<Rightarrow> transform sc X_values0
               | None \<Rightarrow> Inr X_values0) (\<lambda>X_values.
     predict_proba (model st) X_values)"

text \<open>The lambda on a cell of the column \<open>Behavior_Score\<close>. The column holds the
  scores just computed, so only the first equation is ever used.\<close>

fun Risk_Category_cell :: "cell \<Rightarrow> error + cell" where
  "Risk_Category_cell (Num s) = Inr (Str (Risk_Category_lambda s))"
| "Risk_Category_cell (Str v) = Inl TypeError"
| "Risk_Category_cell NonFiniteNum = Inl NonFinite"

text \<open>
  \<^verbatim>\<open>
  def powerbi_predict(dataset):
      X = dataset.copy()
      if _scaler is not None: X_values = _scaler.transform(X.values)
      else:                   X_values = X.values
      pd_probs = _model.predict_proba(X_values)[:, 1]
      dataset_out = dataset.copy()
      dataset_out["PD"] = pd_probs
      dataset_out["Behavior_Score"] = [compute_score(p) for p in pd_probs]
      dataset_out["Risk_Category"] = dataset_out["Behavior_Score"].apply(lambda s: ...)
      return dataset_out
  \<close>
  The function takes the reference \<open>dataset\<close> and the heap; it returns the reference of
  the result, or the exception raised, with the heap after the call.
\<close>

definition powerbi_predict :: "module_state \<Rightarrow> ref \<Rightarrow> ref prog" where
  "powerbi_predict st dataset =
     prog_bind (df_copy dataset) (\<lambda>X.
     prog_bind (heap_values X) (\<lambda>X_values.
     prog_bind (prog_lift (predict_pd st X_values)) (\<lambda>pd_probs.
     prog_bind (df_copy dataset) (\<lambda>dataset_out.
     prog_bind (heap_setitem dataset_out ''PD'' (map Num pd_probs)) (\<lambda>u1.
     prog_bind (prog_lift (mapM_err compute_score pd_probs)) (\<lambda>scores.
     prog_bind (heap_setitem dataset_out ''Behavior_Score'' (map Num scores)) (\<lambda>u2.
     prog_bind (heap_getitem dataset_out ''Behavior_Score'') (\<lambda>col.
     prog_bind (prog_lift (mapM_err Risk_Category_cell col)) (\<lambda>labels.
     prog_bind (heap_setitem dataset_out ''Risk_Category'' labels) (\<lambda>u3.
     prog_return dataset_out))))))))))"

text \<open>The script as Power BI runs it: the import, then
  \<^verbatim>\<open>df = powerbi_predict(dataset)\<close>.\<close>

definition powerbi_script :: "environment \<Rightarrow> ref \<Rightarrow> ref prog" where
  "powerbi_script env dataset h =
     (case module_init env of
        Inl e \<Rightarrow> (Inl e, h)
      | Inr st \<Rightarrow> powerbi_predict st dataset h)"

text \<open>The three column names the function assigns.\<close>

definition output_names :: "string set" where
  "output_names = {''PD'', ''Behavior_Score'', ''Risk_Category''}"

subsection \<open>app.py: one run of the dashboard\<close>

text \<open>
  The transform on a cell of the uploaded column \<open>PD\<close>. A string cell raises TypeError
  in \<^verbatim>\<open>1 - pd_value\<close>; a \<open>nan\<close> or infinite cell gives \<open>nan\<close>.
\<close>

fun score_cell :: "cell \<Rightarrow> error + cell" where
  "score_cell (Num p) =
     (case calculate_behavior_score p of
        Inr s \<Rightarrow> Inr (Num s)
      | Inl NonFinite \<Rightarrow> Inr NonFiniteNum
      | Inl e \<Rightarrow> Inl e)"
| "score_cell (Str v) = Inl TypeError"
| "score_cell NonFiniteNum = Inr NonFiniteNum"

text \<open>
  \<open>risk_category\<close> on a cell of the column \<open>Behavior_Score\<close>. A score that is not a
  real number is \<open>nan\<close> or \<open>inf\<close> there; both comparisons are false for these, which
  leaves the last branch.
\<close>

fun risk_category_cell :: "cell \<Rightarrow> error + cell" where
  "risk_category_cell (Num s) = Inr (Str (risk_category s))"
| "risk_category_cell (Str v) = Inl TypeError"
| "risk_category_cell NonFiniteNum = Inr (Str ''Low Risk'')"

text \<open>
  Lines 102 to 113, the scoring of the main section:
  \<^verbatim>\<open>
  df["Behavior_Score"] = df["PD"].apply(calculate_behavior_score)
  df["Risk_Category"] = df["Behavior_Score"].apply(risk_category)
  \<close>
\<close>

definition main_section :: "dataframe \<Rightarrow> error + dataframe" where
  "main_section df =
     err_bind (df_getitem df ''PD'') (\<lambda>pd_col.
     err_bind (mapM_err score_cell pd_col) (\<lambda>scores.
     err_bind (df_setitem df ''Behavior_Score'' scores) (\<lambda>df1.
     err_bind (df_getitem df1 ''Behavior_Score'') (\<lambda>score_col.
     err_bind (mapM_err risk_category_cell score_col) (\<lambda>labels.
     df_setitem df1 ''Risk_Category'' labels)))))"

text \<open>
  The sidebar section, lines 49 to 94, runs between the guard and the scoring. Its
  widgets are Streamlit calls fed with pandas statistics of the uploaded columns, and
  the estimate \<open>pd_pred\<close> of lines 73 to 76 is the mean of \<open>PD\<close> adjusted by the inputs.
  These library calls are external and may raise; the model takes their outcome as
  given: the exception raised while the form is built, if any; whether the button
  \<open>Predict Risk\<close> was pressed; and the estimate before the clamp, or the exception
  raised while it is computed. The KPI cards and charts after the scoring are not
  modelled.
\<close>

record sidebar =
  form_raises :: "error option"
  predict_pressed :: bool
  pd_pred_raw :: "error + real"

definition sidebar_section :: "sidebar \<Rightarrow> error + (real \<times> real \<times> string) option" where
  "sidebar_section ui =
     (case form_raises ui of
        Some e \<Rightarrow> Inl e
      | None \<Rightarrow>
          if predict_pressed ui then
            err_bind (pd_pred_raw ui) (\<lambda>pd_pred.
            err_bind (sidebar_predict pd_pred) (\<lambda>r. Inr (Some r)))
          else Inr None)"

text \<open>
  The outcome of a run: the hint shown when nothing is uploaded; the message of
  \<^verbatim>\<open>st.error\<close> followed by \<^verbatim>\<open>st.stop()\<close>; an exception; or the
  sidebar's result with the scored table.
\<close>

datatype outcome =
    Info string
  | Stopped string
  | Raised error
  | Rendered "(real \<times> real \<times> string) option" dataframe

definition app_main :: "dataframe option \<Rightarrow> sidebar \<Rightarrow> outcome" where
  "app_main uploaded_file ui =
     (case uploaded_file of
        None \<Rightarrow> Info ''Upload a CSV file to generate the scorecard dashboard.''
      | Some df \<Rightarrow>
          if ''PD'' \<notin> set (column_names df) then Stopped ''CSV must contain a 'PD' column!''
          else
            (case sidebar_section ui of
               Inl e \<Rightarrow> Raised e
             | Inr side \<Rightarrow>
                 (case main_section df of
                    Inl e \<Rightarrow> Raised e
                  | Inr df' \<Rightarrow> Rendered side df')))"

section \<open>Properties of the scalar functions\<close>

subsection \<open>Closed forms\<close>

lemma B_powerbi_pos: "0 < B_powerbi"
  by (simp add: B_powerbi_def PDO_def)

lemma B_app_pos: "0 < B_app"
  by (simp add: B_app_def)

lemma clamp_powerbi_bounds: "1 / 1000 \<le> clamp_powerbi p \<and> clamp_powerbi p \<le> 999 / 1000"
  by (simp add: clamp_powerbi_def max_def min_def)



lemma odds_pos: "0 < p \<Longrightarrow> p < 1 \<Longrightarrow> 0 < p / (1 - p)" for p :: real
  by simp

lemma compute_score_eq:
  "compute_score p =
     Inr (A_powerbi - B_powerbi * ln (clamp_powerbi p / (1 - clamp_powerbi p)))"
proof -
  define c where "c = clamp_powerbi p"
  have b: "1 / 1000 \<le> c" "c \<le> 999 / 1000"
    using clamp_powerbi_bounds [of p] by (simp_all add: c_def)
  then have "0 < c" "c < 1" by linarith+
  then have "1 - c \<noteq> 0" and "\<not> c / (1 - c) \<le> 0"
    using odds_pos [of c] by linarith+
  then have "(let pd = c in
      case py_truediv pd (1 - pd) of
        Inl e \<Rightarrow> Inl e
      | Inr odds \<Rightarrow>
          (case math_log odds of
             Inl e \<Rightarrow> Inl e
           | Inr l \<Rightarrow> Inr (A_powerbi - B_powerbi * l)))
     = Inr (A_powerbi - B_powerbi * ln (c / (1 - c)))"
    by (simp add: py_truediv_def math_log_def)
  then show ?thesis
    by (simp add: compute_score_def c_def clamp_powerbi_def)
qed

lemma calculate_behavior_score_eq:
  assumes "0 < p" "p < 1"
  shows "calculate_behavior_score p = Inr (A_app - B_app * ln (p / (1 - p)))"
proof -
  have "1 - p \<noteq> 0" and "\<not> p / (1 - p) \<le> 0"
    using assms odds_pos [of p] by linarith+
  then show ?thesis
    by (simp add: calculate_behavior_score_def py_truediv_def np_log_def)
qed



subsection \<open>Bounds on the logarithms\<close>

text \<open>Logarithms are compared through integer powers: \<open>5 ^ 59 < 2 ^ 137\<close> and
  \<open>2 ^ 339 < 5 ^ 146\<close> enclose \<open>ln 5 / ln 2\<close>, and \<open>exp 1 \<le> 3\<close> bounds the
  exponential from above.\<close>

lemma ln5_lower: "339 * ln 2 < 146 * ln (5::real)"
proof -
  have "(2::real) ^ 339 < 5 ^ 146" by simp
  then have "ln ((2::real) ^ 339) < ln (5 ^ 146)"
    by (intro ln_strict_mono) simp_all
  then show ?thesis unfolding ln_realpow by simp
qed

lemma ln5_upper: "59 * ln (5::real) < 137 * ln 2"
proof -
  have "(5::real) ^ 59 < 2 ^ 137" by simp
  then have "ln ((5::real) ^ 59) < ln (2 ^ 137)"
    by (intro ln_strict_mono) simp_all
  then show ?thesis unfolding ln_realpow by simp
qed

lemma ln20_eq: "ln (20::real) = 2 * ln 2 + ln 5"
proof -
  have "ln (20::real) = ln (2 ^ 2 * 5)" by simp
  also have "\<dots> = ln (2 ^ 2) + ln 5" by (rule ln_mult_pos) simp_all
  also have "\<dots> = 2 * ln 2 + ln 5" unfolding ln_realpow by simp
  finally show ?thesis .
qed

lemma A_powerbi_eq: "A_powerbi = 640 + 20 * (ln 5 / ln 2)"
proof -
  have "ln (2::real) \<noteq> 0" by simp
  then show ?thesis
    by (simp add: A_powerbi_def B_powerbi_def SCORE_REF_def PDO_def ODDS_def ln20_eq field_simps)
qed

lemma A_powerbi_bounds: "686438 / 1000 < A_powerbi \<and> A_powerbi < 686441 / 1000"
proof -
  have pos: "0 < ln (2::real)" by simp
  have "339 / 146 < ln 5 / ln (2::real)"
    using ln5_lower pos by (simp add: field_simps)
  moreover have "ln 5 / ln (2::real) < 137 / 59"
    using ln5_upper pos by (simp add: field_simps)
  ultimately show ?thesis
    unfolding A_powerbi_eq by linarith
qed

lemma ln_19980: "ln (20::real) + ln 999 \<le> 15 * ln 2"
proof -
  have "ln (20::real) + ln 999 = ln (20 * 999)"
    by (rule ln_mult_pos [symmetric]) simp_all
  also have "\<dots> \<le> ln ((2::real) ^ 15)"
    by (intro ln_mono) simp_all
  also have "\<dots> = 15 * ln 2" unfolding ln_realpow by simp
  finally show ?thesis .
qed

lemma B_span: "B_powerbi * (ln 20 + ln 999) \<le> 300"
proof -
  have pos: "0 < ln (2::real)" by simp
  have "B_powerbi * (ln 20 + ln 999) \<le> B_powerbi * (15 * ln 2)"
    using ln_19980 B_powerbi_pos by (intro mult_left_mono) simp_all
  also have "\<dots> = 300" using pos by (simp add: B_powerbi_def PDO_def)
  finally show ?thesis .
qed

lemma log_odds_clamped:
  fixes c :: real
  assumes "1 / 1000 \<le> c" "c \<le> 999 / 1000"
  shows "- ln 999 \<le> ln (c / (1 - c)) \<and> ln (c / (1 - c)) \<le> ln 999"
proof -
  have c: "0 < c" "c < 1" using assms by linarith+
  then have o: "0 < c / (1 - c)" by (intro odds_pos)
  have "1 / 999 \<le> c / (1 - c)" "c / (1 - c) \<le> 999"
    using assms c by (simp_all add: field_simps)
  then have "ln (1 / 999) \<le> ln (c / (1 - c))" "ln (c / (1 - c)) \<le> ln 999"
    using o by (simp_all add: ln_mono)
  moreover have "ln (1 / 999 :: real) = - ln 999"
    by (simp add: ln_div)
  ultimately show ?thesis by simp
qed

text \<open>The BI script's transform maps every input into the range from 300 to 900.\<close>

lemma compute_score_range:
  "\<exists>s. compute_score p = Inr s \<and> 300 \<le> s \<and> s \<le> 900"
proof -
  define l where "l = ln (clamp_powerbi p / (1 - clamp_powerbi p))"
  have l: "- ln 999 \<le> l" "l \<le> ln 999"
    using log_odds_clamped [of "clamp_powerbi p"] clamp_powerbi_bounds [of p]
    by (simp_all add: l_def)
  have up: "B_powerbi * (- l) \<le> B_powerbi * ln 999"
    using l B_powerbi_pos by (intro mult_left_mono) simp_all
  have lo: "B_powerbi * l \<le> B_powerbi * ln 999"
    using l B_powerbi_pos by (intro mult_left_mono) simp_all
  have l20: "0 \<le> B_powerbi * ln 20"
    using B_powerbi_pos by simp
  have A: "A_powerbi = 600 + B_powerbi * ln 20"
    by (simp add: A_powerbi_def SCORE_REF_def ODDS_def)
  have span: "B_powerbi * ln 20 + B_powerbi * ln 999 \<le> 300"
    using B_span by (simp add: algebra_simps)
  have "300 \<le> A_powerbi - B_powerbi * l" "A_powerbi - B_powerbi * l \<le> 900"
    using up lo l20 span unfolding A by (simp_all add: algebra_simps)
  then show ?thesis
    by (simp add: compute_score_eq l_def)
qed

lemma exp_nat_le: "exp (real n) \<le> 3 ^ n"
proof -
  have "exp (real n) = exp (real n * 1)" by simp
  also have "\<dots> = exp 1 ^ n" by (rule exp_of_nat_mult)
  also have "\<dots> \<le> 3 ^ n" by (intro power_mono exp_le) simp
  finally show ?thesis .
qed

lemma ln_9999: "8 < ln (9999::real)"
proof -
  have "exp (8::real) \<le> 3 ^ 8" using exp_nat_le [of 8] by simp
  also have "\<dots> < (9999::real)" by simp
  finally have "exp 8 < exp (ln (9999::real))" by simp
  then show ?thesis by (simp only: exp_less_cancel_iff)
qed

lemma ln_9999999: "14 < ln (9999999::real)"
proof -
  have "exp (14::real) \<le> 3 ^ 14" using exp_nat_le [of 14] by simp
  also have "\<dots> < (9999999::real)" by simp
  finally have "exp 14 < exp (ln (9999999::real))" by simp
  then show ?thesis by (simp only: exp_less_cancel_iff)
qed

section \<open>The claims about the scalar functions\<close>




text \<open>
  The BI script's transform never fails: after the clamp the denominator is at least
  \<open>0.001\<close> and the odds are positive.
\<close>

lemma compute_score_total: "\<exists>s. compute_score p = Inr s"
  by (simp add: compute_score_eq)


text \<open>
  Claim C3 fails for the dashboard: \<open>calculate_behavior_score\<close> has no clamp, and the
  main section applies it to the uploaded column as it is. At \<open>PD = 1\<close> the division
  by \<open>1 - PD\<close> raises ZeroDivisionError; at \<open>PD = 0\<close> the logarithm of zero odds is
  \<open>-inf\<close> and the score is infinite.
\<close>

theorem calculate_behavior_score_unclamped: "calculate_behavior_score 1 = Inl ZeroDivisionError
   \<and> calculate_behavior_score 0 = Inl NonFinite"
  by (simp add: calculate_behavior_score_def py_truediv_def np_log_def)

text \<open>
  Claim C4: each labeler gives every score exactly one of its three labels, and the
  label is decided by the interval the score lies in: below 600, from 600 to below 700,
  and from 700 for the BI script; below 580, from 580 to below 700, and from 700 for
  the dashboard.
\<close>

theorem risk_labels_partition:
  "(Risk_Category_lambda s = ''High'' \<longleftrightarrow> s < 600)
 \<and> (Risk_Category_lambda s = ''Medium'' \<longleftrightarrow> 600 \<le> s \<and> s < 700)
 \<and> (Risk_Category_lambda s = ''Low'' \<longleftrightarrow> 700 \<le> s)
 \<and> Risk_Category_lambda s \<in> {''High'', ''Medium'', ''Low''}
 \<and> (risk_category s = ''High Risk'' \<longleftrightarrow> s < 580)
 \<and> (risk_category s = ''Medium Risk'' \<longleftrightarrow> 580 \<le> s \<and> s < 700)
 \<and> (risk_category s = ''Low Risk'' \<longleftrightarrow> 700 \<le> s)
 \<and> risk_category s \<in> {''High Risk'', ''Medium Risk'', ''Low Risk''}"
  by (simp add: Risk_Category_lambda_def risk_category_def)

text \<open>
  Claim C5: at \<open>PD = 0.5\<close> the BI script's transform returns exactly its constant
  \<open>A\<close>, which is within \<open>0.005\<close> of \<open>686.44\<close>, and the label of that score is
  \<open>Medium\<close>.
\<close>

theorem compute_score_at_half:
  "compute_score 0.5 = Inr A_powerbi
   \<and> \<bar>A_powerbi - 686.44\<bar> < 0.005
   \<and> Risk_Category_lambda A_powerbi = ''Medium''"
proof -
  have "compute_score 0.5 = Inr A_powerbi"
    by (simp add: compute_score_eq clamp_powerbi_def)
  moreover have "\<bar>A_powerbi - 686.44\<bar> < 0.005"
    using A_powerbi_bounds unfolding abs_less_iff by simp
  moreover have "Risk_Category_lambda A_powerbi = ''Medium''"
    using A_powerbi_bounds by (simp add: Risk_Category_lambda_def)
  ultimately show ?thesis by blast
qed

text \<open>
  Claim C6 fails for the dashboard: without a clamp, \<open>PD = 0.0001\<close> scores above 900
  and \<open>PD = 0.9999999\<close> scores below 300.
\<close>

theorem calculate_behavior_score_out_of_range:
  "calculate_behavior_score (1 / 10000) = Inr (A_app + B_app * ln 9999)
   \<and> 900 < A_app + B_app * ln 9999
   \<and> calculate_behavior_score (9999999 / 10000000) = Inr (A_app - B_app * ln 9999999)
   \<and> A_app - B_app * ln 9999999 < 300"
proof -
  have "ln (1 / 9999 :: real) = - ln 9999" by (simp add: ln_div)
  then have 1: "calculate_behavior_score (1 / 10000) = Inr (A_app + B_app * ln 9999)"
    by (simp add: calculate_behavior_score_eq)
  have 2: "calculate_behavior_score (9999999 / 10000000) = Inr (A_app - B_app * ln 9999999)"
    by (simp add: calculate_behavior_score_eq)
  have "B_app * 8 < B_app * ln 9999"
    using ln_9999 B_app_pos by (simp only: mult_less_cancel_left_pos)
  then have 3: "900 < A_app + B_app * ln 9999"
    by (simp add: A_app_def B_app_def)
  have "B_app * 14 < B_app * ln 9999999"
    using ln_9999999 B_app_pos by (simp only: mult_less_cancel_left_pos)
  then have 4: "A_app - B_app * ln 9999999 < 300"
    by (simp add: A_app_def B_app_def)
  from 1 2 3 4 show ?thesis by blast
qed

text \<open>
  Claim C10: the two labelers are different functions. The BI script's labels are
  exactly \<open>Low\<close>, \<open>Medium\<close> and \<open>High\<close>, the dashboard's are exactly \<open>Low Risk\<close>,
  \<open>Medium Risk\<close> and \<open>High Risk\<close>, and no label of one is a label of the other. A
  score from 580 to below 600 is \<open>High\<close> for the BI script and \<open>Medium Risk\<close> for the
  dashboard.
\<close>

theorem risk_labelers_differ:
  "Risk_Category_lambda \<noteq> risk_category
   \<and> range Risk_Category_lambda = {''Low'', ''Medium'', ''High''}
   \<and> range risk_category = {''Low Risk'', ''Medium Risk'', ''High Risk''}
   \<and> range Risk_Category_lambda \<inter> range risk_category = {}
   \<and> (580 \<le> s \<and> s < 600 \<longrightarrow>
         Risk_Category_lambda s = ''High'' \<and> risk_category s = ''Medium Risk'')"
proof -
  have "Risk_Category_lambda 0 \<noteq> risk_category 0"
    by (simp add: Risk_Category_lambda_def risk_category_def)
  then have 1: "Risk_Category_lambda \<noteq> risk_category" by metis
  have "Risk_Category_lambda 700 = ''Low''" "Risk_Category_lambda 600 = ''Medium''"
    "Risk_Category_lambda 0 = ''High''"
    by (simp_all add: Risk_Category_lambda_def)
  then have "{''Low'', ''Medium'', ''High''} \<subseteq> range Risk_Category_lambda"
    by (metis insert_subset empty_subsetI rangeI)
  moreover have "range Risk_Category_lambda \<subseteq> {''Low'', ''Medium'', ''High''}"
    by (auto simp add: Risk_Category_lambda_def)
  ultimately have 2: "range Risk_Category_lambda = {''Low'', ''Medium'', ''High''}"
    by (rule subset_antisym [rotated])
  have "risk_category 700 = ''Low Risk''" "risk_category 580 = ''Medium Risk''"
    "risk_category 0 = ''High Risk''"
    by (simp_all add: risk_category_def)
  then have "{''Low Risk'', ''Medium Risk'', ''High Risk''} \<subseteq> range risk_category"
    by (metis insert_subset empty_subsetI rangeI)
  moreover have "range risk_category \<subseteq> {''Low Risk'', ''Medium Risk'', ''High Risk''}"
    by (auto simp add: risk_category_def)
  ultimately have 3: "range risk_category = {''Low Risk'', ''Medium Risk'', ''High Risk''}"
    by (rule subset_antisym [rotated])
  have 4: "range Risk_Category_lambda \<inter> range risk_category = {}"
    unfolding 2 3 by simp
  from 1 2 3 4 show ?thesis
    by (simp add: Risk_Category_lambda_def risk_category_def)
qed

theorem risk_labelers_differ_witness:
  "(580 :: real) \<le> 590 \<and> (590 :: real) < 600
   \<and> Risk_Category_lambda 590 = ''High'' \<and> risk_category 590 = ''Medium Risk''"
  using risk_labelers_differ [of 590] by simp

section \<open>Properties of the tables and the heap\<close>

subsection \<open>Sequencing, columns and item assignment\<close>

lemma err_bind_Inr [simp]: "err_bind (Inr x) f = f x"
  by (simp add: err_bind_def)

lemma err_bind_Inl [simp]: "err_bind (Inl e) f = Inl e"
  by (simp add: err_bind_def)

lemma mapM_err_all_Inr:
  "(\<And>x. x \<in> set xs \<Longrightarrow> f x = Inr (g x)) \<Longrightarrow> mapM_err f xs = Inr (map g xs)"
  by (induction xs) simp_all

lemma map_of_overwrite:
  "name \<in> fst ` set cols \<Longrightarrow>
   map_of (map (\<lambda>c. if fst c = name then (name, vals) else c) cols) name = Some vals"
  by (induction cols) auto

lemma map_of_overwrite_other:
  "other \<noteq> name \<Longrightarrow>
   map_of (map (\<lambda>c. if fst c = name then (name, vals) else c) cols) other = map_of cols other"
  by (induction cols) auto

lemma map_of_append_new:
  "name \<notin> fst ` set cols \<Longrightarrow> ([name \<mapsto> vals] ++ map_of cols) name = Some vals"
proof -
  assume "name \<notin> fst ` set cols"
  then have "map_of cols name = None" by (simp add: map_of_eq_None_iff)
  then show ?thesis by (simp add: map_add_def)
qed

lemma map_of_append_other:
  "other \<noteq> name \<Longrightarrow> ([name \<mapsto> vals] ++ map_of cols) other = map_of cols other"
  by (simp add: map_add_def split: option.splits)

lemma nrows_assign_column [simp]: "nrows (assign_column df name vals) = nrows df"
  by (simp add: assign_column_def)

lemma getitem_assign_same [simp]:
  "df_getitem (assign_column df name vals) name = Inr vals"
  by (simp add: df_getitem_def assign_column_def column_names_def
        map_of_overwrite map_of_append_new)

lemma getitem_assign_other [simp]:
  "other \<noteq> name \<Longrightarrow> df_getitem (assign_column df name vals) other = df_getitem df other"
  by (simp add: df_getitem_def assign_column_def map_of_overwrite_other map_of_append_other)

lemma setitem_same_length:
  "length vals = nrows df \<Longrightarrow> df_setitem df name vals = Inr (assign_column df name vals)"
  by (simp add: df_setitem_def)

lemma assign_column_new:
  "name \<notin> set (column_names df) \<Longrightarrow>
   assign_column df name vals = df\<lparr>columns := columns df @ [(name, vals)]\<rparr>"
  by (simp add: assign_column_def)


subsection \<open>Columns kept by an assignment\<close>

lemma column_names_assign:
  "column_names (assign_column df name vals) =
     column_names df @ (if name \<in> set (column_names df) then [] else [name])"
  by (simp add: assign_column_def column_names_def comp_def if_distrib cong: if_cong)

lemma filter_overwrite:
  "name \<in> S \<Longrightarrow>
   filter (\<lambda>c. fst c \<notin> S) (map (\<lambda>c. if fst c = name then (name, vals) else c) cols) =
   filter (\<lambda>c. fst c \<notin> S) cols"
  by (induction cols) auto

lemma other_columns_assign:
  "name \<in> S \<Longrightarrow>
   filter (\<lambda>c. fst c \<notin> S) (columns (assign_column df name vals)) =
   filter (\<lambda>c. fst c \<notin> S) (columns df)"
  by (simp add: assign_column_def filter_overwrite)

subsection \<open>References\<close>

lemma heap_get_old:
  "heap_get h r = Inr df \<Longrightarrow> heap_get (h @ xs) r = Inr df"
  by (auto simp add: heap_get_def nth_append split: if_splits)

lemma heap_get_first_new [simp]: "heap_get (h @ x # xs) (length h) = Inr x"
  by (simp add: heap_get_def)

lemma heap_get_second_new [simp]: "heap_get (h @ [x, y]) (Suc (length h)) = Inr y"
  by (simp add: heap_get_def nth_append)

lemma df_copy_valid:
  "heap_get h r = Inr df \<Longrightarrow> df_copy r h = (Inr (length h), h @ [df])"
  by (simp add: df_copy_def)

lemma heap_setitem_second_new:
  "df_setitem y name vals = Inr y' \<Longrightarrow>
   heap_setitem (Suc (length h)) name vals (h @ [x, y]) = (Inr (), h @ [x, y'])"
  by (simp add: heap_setitem_def list_update_append)

lemma heap_getitem_second_new:
  "heap_getitem (Suc (length h)) name (h @ [x, y]) = (df_getitem y name, h @ [x, y])"
  by (simp add: heap_getitem_def)

lemma mapM_compute_score:
  "mapM_err compute_score ps =
     Inr (map (\<lambda>p. A_powerbi - B_powerbi * ln (clamp_powerbi p / (1 - clamp_powerbi p))) ps)"
  by (rule mapM_err_all_Inr) (rule compute_score_eq)

lemma mapM_Risk_Category_cell:
  "mapM_err Risk_Category_cell (map Num ss) = Inr (map (\<lambda>s. Str (Risk_Category_lambda s)) ss)"
  by (induction ss) simp_all

text \<open>
  Each statement on the heap keeps the objects that exist: a copy appends one object,
  and an item assignment through a reference changes that object only. The reference a
  copy returns is past all of them.
\<close>

lemma keeps_return: "keeps n (prog_return x)"
  by (simp add: keeps_def prog_return_def)

lemma keeps_lift: "keeps n (prog_lift r)"
  by (simp add: keeps_def prog_lift_def)

lemma keeps_getitem: "keeps n (heap_getitem r name)"
  by (simp add: keeps_def heap_getitem_def)

lemma keeps_values: "keeps n (heap_values r)"
  by (simp add: keeps_def heap_values_def)

lemma keeps_setitem: "n \<le> r \<Longrightarrow> keeps n (heap_setitem r name vals)"
  by (auto simp add: keeps_def heap_setitem_def split: sum.splits)

lemma keeps_bind:
  assumes "keeps n m" and "\<And>x. keeps n (f x)"
  shows "keeps n (prog_bind m f)"
  using assms
  by (auto simp add: keeps_def prog_bind_def split: sum.splits prod.splits)

lemma keeps_copy_bind:
  assumes "\<And>x. n \<le> x \<Longrightarrow> keeps n (f x)"
  shows "keeps n (prog_bind (df_copy r) f)"
  using assms
  by (auto simp add: keeps_def prog_bind_def df_copy_def split: sum.splits prod.splits)

lemma keeps_powerbi_predict: "keeps n (powerbi_predict st dataset)"
  unfolding powerbi_predict_def
  by (intro keeps_copy_bind keeps_bind keeps_return keeps_lift keeps_getitem keeps_values
        keeps_setitem)

lemma powerbi_predict_never_mutates:
  "take (length h) (snd (powerbi_predict st dataset h)) = h"
  using keeps_powerbi_predict [of "length h" st dataset] by (simp add: keeps_def)

text \<open>
  The run of \<open>powerbi_predict\<close> when the external scaler and classifier return one
  probability for each row: two objects are allocated, the copy \<open>X\<close> and the result.
\<close>

lemma powerbi_predict_run:
  assumes ds: "heap_get h dataset = Inr df"
    and pd: "predict_pd st (df_values df) = Inr pd_probs"
    and len: "length pd_probs = nrows df"
  defines "scores \<equiv>
      map (\<lambda>p. A_powerbi - B_powerbi * ln (clamp_powerbi p / (1 - clamp_powerbi p))) pd_probs"
  shows "powerbi_predict st dataset h =
     (Inr (Suc (length h)),
      h @ [df,
           assign_column
             (assign_column (assign_column df ''PD'' (map Num pd_probs))
                ''Behavior_Score'' (map Num scores))
             ''Risk_Category'' (map (\<lambda>s. Str (Risk_Category_lambda s)) scores)])"
proof -
  define df1 where "df1 = assign_column df ''PD'' (map Num pd_probs)"
  define df2 where "df2 = assign_column df1 ''Behavior_Score'' (map Num scores)"
  define df3 where
    "df3 = assign_column df2 ''Risk_Category'' (map (\<lambda>s. Str (Risk_Category_lambda s)) scores)"
  have sc: "mapM_err compute_score pd_probs = Inr scores"
    by (simp add: scores_def mapM_compute_score)
  have s1: "df_setitem df ''PD'' (map Num pd_probs) = Inr df1"
    using len by (simp add: setitem_same_length df1_def)
  have s2: "df_setitem df1 ''Behavior_Score'' (map Num scores) = Inr df2"
    using len by (simp add: setitem_same_length df1_def df2_def scores_def)
  have g2: "df_getitem df2 ''Behavior_Score'' = Inr (map Num scores)"
    by (simp add: df2_def)
  have s3: "df_setitem df2 ''Risk_Category''
              (map (\<lambda>s. Str (Risk_Category_lambda s)) scores) = Inr df3"
    using len by (simp add: setitem_same_length df1_def df2_def df3_def scores_def)
  have c1: "df_copy dataset h = (Inr (length h), h @ [df])"
    using ds by (rule df_copy_valid)
  have v: "heap_values (length h) (h @ [df]) = (Inr (df_values df), h @ [df])"
    by (simp add: heap_values_def)
  have c2: "df_copy dataset (h @ [df]) = (Inr (Suc (length h)), h @ [df, df])"
    using heap_get_old [OF ds, of "[df]"] by (simp add: df_copy_def)
  have "powerbi_predict st dataset h = (Inr (Suc (length h)), h @ [df, df3])"
    unfolding powerbi_predict_def
    by (simp add: prog_bind_def prog_lift_def prog_return_def c1 v pd c2 sc
          heap_setitem_second_new [OF s1] heap_setitem_second_new [OF s2]
          heap_setitem_second_new [OF s3] heap_getitem_second_new g2
          mapM_Risk_Category_cell)
  then show ?thesis by (simp add: df1_def df2_def df3_def)
qed

subsection \<open>The dashboard's scoring section\<close>





text \<open>
  A table with the cell \<open>PD = 1\<close> passes the guard and then stops the dashboard's
  run with the exception of the unclamped transform.
\<close>

lemma app_main_pd_one:
  "app_main (Some \<lparr>nrows = 2, columns = [(''PD'', [Num (1 / 2), Num 1])]\<rparr>)
     \<lparr>form_raises = None, predict_pressed = False, pd_pred_raw = Inr 0\<rparr>
   = Raised ZeroDivisionError"
  by (simp add: app_main_def sidebar_section_def column_names_def main_section_def
        df_getitem_def calculate_behavior_score_def py_truediv_def np_log_def)

section \<open>The claims about the two scripts\<close>

text \<open>
  Claim C7, refuted as stated: in the environment \<open>env_stale\<close> the model file exists
  when the script tests for it, and the import still ends with FileNotFoundError,
  raised by \<^verbatim>\<open>joblib.load\<close>.
\<close>

theorem model_file_present_still_not_found:
  "os_path_exists env_stale MODEL_FILE
   \<and> module_init env_stale = Inl (FileNotFoundError ''behavior_model.pkl'')"
  by (simp add: env_stale_def module_init_def MODEL_FILE_def)

text \<open>
  Claim C7, amended. When the model file \<open>behavior_model.pkl\<close> does not exist, the
  import raises FileNotFoundError with the script's message, the script ends with that
  error, \<open>powerbi_predict\<close> is never called and the heap is untouched. When the model
  file exists, a FileNotFoundError of the import is one that \<^verbatim>\<open>joblib.load\<close> raised,
  for the model file or for a scaler file that exists. When the model file loads and the
  scaler file does not exist, the import succeeds with no scaler.
\<close>

theorem missing_model_file_is_fatal:
  "(\<not> os_path_exists env MODEL_FILE \<longrightarrow>
        module_init env = Inl (FileNotFoundError ''Model file not found: behavior_model.pkl'')
      \<and> powerbi_script env dataset h =
          (Inl (FileNotFoundError ''Model file not found: behavior_model.pkl''), h))
   \<and> (os_path_exists env MODEL_FILE \<and> module_init env = Inl (FileNotFoundError msg) \<longrightarrow>
        joblib_load env MODEL_FILE = Inl (FileNotFoundError msg)
      \<or> (os_path_exists env SCALER_FILE
          \<and> joblib_load env SCALER_FILE = Inl (FileNotFoundError msg)))
   \<and> (joblib_load env MODEL_FILE = Inr m \<and> os_path_exists env MODEL_FILE
        \<and> \<not> os_path_exists env SCALER_FILE \<longrightarrow>
        module_init env = Inr \<lparr>model = m, scaler = None\<rparr>)"
  by (auto simp add: module_init_def powerbi_script_def MODEL_FILE_def err_bind_def
        split: sum.splits if_splits)

theorem missing_model_file_is_fatal_witness:
  "\<not> os_path_exists env_empty MODEL_FILE
   \<and> module_init env_empty = Inl (FileNotFoundError ''Model file not found: behavior_model.pkl'')
   \<and> powerbi_script env_empty 0 [] =
        (Inl (FileNotFoundError ''Model file not found: behavior_model.pkl''), [])
   \<and> os_path_exists env_stale MODEL_FILE
   \<and> module_init env_stale = Inl (FileNotFoundError ''behavior_model.pkl'')
   \<and> joblib_load env_stale MODEL_FILE = Inl (FileNotFoundError ''behavior_model.pkl'')
   \<and> joblib_load (env_model_only Other) MODEL_FILE = Inr Other
   \<and> os_path_exists (env_model_only Other) MODEL_FILE
   \<and> \<not> os_path_exists (env_model_only Other) SCALER_FILE
   \<and> module_init (env_model_only Other) = Inr \<lparr>model = Other, scaler = None\<rparr>"
proof -
  have 1: "\<not> os_path_exists env_empty MODEL_FILE" by (simp add: env_empty_def)
  have 2: "os_path_exists env_stale MODEL_FILE" by (simp add: env_stale_def)
  have 3: "module_init env_stale = Inl (FileNotFoundError ''behavior_model.pkl'')"
    by (simp add: env_stale_def module_init_def MODEL_FILE_def)
  have 4: "\<not> os_path_exists env_stale SCALER_FILE"
    by (simp add: env_stale_def MODEL_FILE_def SCALER_FILE_def)
  have 5: "joblib_load (env_model_only Other) MODEL_FILE = Inr Other"
    "os_path_exists (env_model_only Other) MODEL_FILE"
    "\<not> os_path_exists (env_model_only Other) SCALER_FILE"
    by (simp_all add: env_model_only_def MODEL_FILE_def SCALER_FILE_def)
  from missing_model_file_is_fatal [of env_empty 0 "[]" "''behavior_model.pkl''" Other] 1
  have a: "module_init env_empty =
        Inl (FileNotFoundError ''Model file not found: behavior_model.pkl'')"
    "powerbi_script env_empty 0 [] =
        (Inl (FileNotFoundError ''Model file not found: behavior_model.pkl''), [])"
    by simp_all
  from missing_model_file_is_fatal [of env_stale 0 "[]" "''behavior_model.pkl''" Other] 2 3 4
  have b: "joblib_load env_stale MODEL_FILE = Inl (FileNotFoundError ''behavior_model.pkl'')"
    by simp
  from missing_model_file_is_fatal [of "env_model_only Other" 0 "[]" "''behavior_model.pkl''" Other] 5
  have c: "module_init (env_model_only Other) = Inr \<lparr>model = Other, scaler = None\<rparr>"
    by simp
  from 1 2 3 5 a b c show ?thesis by simp
qed




text \<open>
  Claim C9, refuted as stated. The first input table already has a column \<open>PD\<close>: the
  item assignment overwrites it with the predicted probabilities, so the output has two
  new columns and the original values \<open>0.9\<close> of \<open>PD\<close> are gone from it. On the
  second input the loaded object is no classifier: the call raises and returns no table.
\<close>

theorem powerbi_predict_overwrites_pd:
  "powerbi_predict \<lparr>model = constant_classifier (1 / 2), scaler = None\<rparr> 0
     [\<lparr>nrows = 1, columns = [(''PD'', [Num (9 / 10)])]\<rparr>]
   = (Inr 2,
      [\<lparr>nrows = 1, columns = [(''PD'', [Num (9 / 10)])]\<rparr>,
       \<lparr>nrows = 1, columns = [(''PD'', [Num (9 / 10)])]\<rparr>,
       \<lparr>nrows = 1, columns = [(''PD'', [Num (1 / 2)]),
                               (''Behavior_Score'', [Num A_powerbi]),
                               (''Risk_Category'', [Str ''Medium''])]\<rparr>])
   \<and> powerbi_predict \<lparr>model = Other, scaler = None\<rparr> 0
       [\<lparr>nrows = 1, columns = [(''feature_1'', [Num (12 / 100)])]\<rparr>]
     = (Inl AttributeError,
        [\<lparr>nrows = 1, columns = [(''feature_1'', [Num (12 / 100)])]\<rparr>,
         \<lparr>nrows = 1, columns = [(''feature_1'', [Num (12 / 100)])]\<rparr>])"
proof -
  have half: "compute_score (1 / 2) = Inr A_powerbi"
    by (simp add: compute_score_eq clamp_powerbi_def)
  have label: "Risk_Category_lambda A_powerbi = ''Medium''"
    using A_powerbi_bounds by (simp add: Risk_Category_lambda_def)
  show ?thesis
    by (simp add: powerbi_predict_def prog_bind_def prog_lift_def prog_return_def
          df_copy_def heap_get_def heap_values_def predict_pd_def
          predict_proba_def constant_classifier_def df_values_def heap_setitem_def
          heap_getitem_def df_setitem_def assign_column_def column_names_def
          df_getitem_def half label)
qed

text \<open>
  Claim C9, amended. No call of \<open>powerbi_predict\<close> changes an object that exists
  before it, the input table included, whether it returns or raises. When the external
  scaler or classifier raises, so does the call. When they return one probability for
  each row, the call returns a new object of as many rows, in which every input column
  not named \<open>PD\<close>, \<open>Behavior_Score\<close> or \<open>Risk_Category\<close> stands unchanged and in
  order, and the columns of these three names hold the probabilities, the scores and
  the labels. A name the input does not have is a new column on the right; a column of
  the input with one of the three names is overwritten in its place. So an input with
  none of the three names comes back with exactly three new columns.
\<close>

theorem powerbi_predict_augments:
  "take (length h) (snd (powerbi_predict st dataset h)) = h
   \<and> (heap_get h dataset = Inr df \<and> predict_pd st (df_values df) = Inl e \<longrightarrow>
        fst (powerbi_predict st dataset h) = Inl e)
   \<and> (heap_get h dataset = Inr df \<and> predict_pd st (df_values df) = Inr pd_probs
        \<and> length pd_probs = nrows df \<longrightarrow>
       (\<exists>scores out.
          map compute_score pd_probs = map Inr scores
        \<and> powerbi_predict st dataset h = (Inr (Suc (length h)), h @ [df, out])
        \<and> Suc (length h) \<noteq> dataset
        \<and> nrows out = nrows df
        \<and> filter (\<lambda>c. fst c \<notin> output_names) (columns out) =
            filter (\<lambda>c. fst c \<notin> output_names) (columns df)
        \<and> column_names out =
            column_names df @
              filter (\<lambda>name. name \<notin> set (column_names df))
                [''PD'', ''Behavior_Score'', ''Risk_Category'']
        \<and> df_getitem out ''PD'' = Inr (map Num pd_probs)
        \<and> df_getitem out ''Behavior_Score'' = Inr (map Num scores)
        \<and> df_getitem out ''Risk_Category'' =
            Inr (map (\<lambda>s. Str (Risk_Category_lambda s)) scores)
        \<and> (set (column_names df) \<inter> output_names = {} \<longrightarrow>
            columns out = columns df @
               [(''PD'', map Num pd_probs),
                (''Behavior_Score'', map Num scores),
                (''Risk_Category'', map (\<lambda>s. Str (Risk_Category_lambda s)) scores)])))"
proof (intro conjI impI)
  show "take (length h) (snd (powerbi_predict st dataset h)) = h"
    by (rule powerbi_predict_never_mutates)
next
  assume a: "heap_get h dataset = Inr df \<and> predict_pd st (df_values df) = Inl e"
  then have c1: "df_copy dataset h = (Inr (length h), h @ [df])"
    by (simp add: df_copy_valid)
  have v: "heap_values (length h) (h @ [df]) = (Inr (df_values df), h @ [df])"
    by (simp add: heap_values_def)
  show "fst (powerbi_predict st dataset h) = Inl e"
    unfolding powerbi_predict_def
    using a by (simp add: prog_bind_def prog_lift_def c1 v)
next
  assume a: "heap_get h dataset = Inr df \<and> predict_pd st (df_values df) = Inr pd_probs
        \<and> length pd_probs = nrows df"
  define scores where "scores =
      map (\<lambda>p. A_powerbi - B_powerbi * ln (clamp_powerbi p / (1 - clamp_powerbi p))) pd_probs"
  define labels where "labels = map (\<lambda>s. Str (Risk_Category_lambda s)) scores"
  define df1 where "df1 = assign_column df ''PD'' (map Num pd_probs)"
  define df2 where "df2 = assign_column df1 ''Behavior_Score'' (map Num scores)"
  define out where "out = assign_column df2 ''Risk_Category'' labels"
  have run: "powerbi_predict st dataset h = (Inr (Suc (length h)), h @ [df, out])"
    using a powerbi_predict_run [of h dataset df st pd_probs]
    by (simp add: out_def df2_def df1_def labels_def scores_def)
  have valid: "dataset < length h"
    using a by (simp add: heap_get_def split: if_splits)
  have 1: "map compute_score pd_probs = map Inr scores"
    by (simp add: scores_def compute_score_eq)
  have 2: "nrows out = nrows df"
    by (simp add: out_def df2_def df1_def)
  have 3: "filter (\<lambda>c. fst c \<notin> output_names) (columns out) =
            filter (\<lambda>c. fst c \<notin> output_names) (columns df)"
  proof -
    have m: "''PD'' \<in> output_names" "''Behavior_Score'' \<in> output_names"
      "''Risk_Category'' \<in> output_names"
      by (simp_all add: output_names_def)
    show ?thesis
      unfolding out_def df2_def df1_def
      by (simp only: other_columns_assign [OF m(1)] other_columns_assign [OF m(2)]
            other_columns_assign [OF m(3)])
  qed
  have 4: "column_names out =
            column_names df @
              filter (\<lambda>name. name \<notin> set (column_names df))
                [''PD'', ''Behavior_Score'', ''Risk_Category'']"
    by (simp add: out_def df2_def df1_def column_names_assign)
  have 5: "df_getitem out ''PD'' = Inr (map Num pd_probs)"
    "df_getitem out ''Behavior_Score'' = Inr (map Num scores)"
    "df_getitem out ''Risk_Category'' = Inr labels"
    by (simp_all add: out_def df2_def df1_def)
  have 6: "columns out = columns df @
               [(''PD'', map Num pd_probs), (''Behavior_Score'', map Num scores),
                (''Risk_Category'', labels)]"
    if "set (column_names df) \<inter> output_names = {}"
  proof -
    from that have f: "''PD'' \<notin> set (column_names df)"
      "''Behavior_Score'' \<notin> set (column_names df)"
      "''Risk_Category'' \<notin> set (column_names df)"
      by (auto simp add: output_names_def)
    then have "''Behavior_Score'' \<notin> set (column_names df1)"
      "''Risk_Category'' \<notin> set (column_names df2)"
      by (simp_all add: df1_def df2_def column_names_assign)
    with f show ?thesis
      by (simp add: out_def df2_def df1_def assign_column_new)
  qed
  from run valid 1 2 3 4 5 6
  show "\<exists>scores out.
          map compute_score pd_probs = map Inr scores
        \<and> powerbi_predict st dataset h = (Inr (Suc (length h)), h @ [df, out])
        \<and> Suc (length h) \<noteq> dataset
        \<and> nrows out = nrows df
        \<and> filter (\<lambda>c. fst c \<notin> output_names) (columns out) =
            filter (\<lambda>c. fst c \<notin> output_names) (columns df)
        \<and> column_names out =
            column_names df @
              filter (\<lambda>name. name \<notin> set (column_names df))
                [''PD'', ''Behavior_Score'', ''Risk_Category'']
        \<and> df_getitem out ''PD'' = Inr (map Num pd_probs)
        \<and> df_getitem out ''Behavior_Score'' = Inr (map Num scores)
        \<and> df_getitem out ''Risk_Category'' =
            Inr (map (\<lambda>s. Str (Risk_Category_lambda s)) scores)
        \<and> (set (column_names df) \<inter> output_names = {} \<longrightarrow>
            columns out = columns df @
               [(''PD'', map Num pd_probs),
                (''Behavior_Score'', map Num scores),
                (''Risk_Category'', map (\<lambda>s. Str (Risk_Category_lambda s)) scores)])"
    unfolding labels_def
    by (intro exI [of _ scores] exI [of _ out]) simp
qed

theorem powerbi_predict_augments_witness:
  "heap_get [\<lparr>nrows = 1, columns = [(''feature_1'', [Num (12 / 100)])]\<rparr>] 0
     = Inr \<lparr>nrows = 1, columns = [(''feature_1'', [Num (12 / 100)])]\<rparr>
   \<and> predict_pd \<lparr>model = constant_classifier (1 / 2), scaler = None\<rparr>
         (df_values \<lparr>nrows = 1, columns = [(''feature_1'', [Num (12 / 100)])]\<rparr>) = Inr [1 / 2]
   \<and> length [1 / 2 :: real] = nrows \<lparr>nrows = 1, columns = [(''feature_1'', [Num (12 / 100)])]\<rparr>
   \<and> set (column_names \<lparr>nrows = 1, columns = [(''feature_1'', [Num (12 / 100)])]\<rparr>)
        \<inter> output_names = {}
   \<and> predict_pd \<lparr>model = Other, scaler = None\<rparr>
         (df_values \<lparr>nrows = 1, columns = [(''feature_1'', [Num (12 / 100)])]\<rparr>)
       = Inl AttributeError
   \<and> fst (powerbi_predict \<lparr>model = Other, scaler = None\<rparr> 0
         [\<lparr>nrows = 1, columns = [(''feature_1'', [Num (12 / 100)])]\<rparr>]) = Inl AttributeError
   \<and> take 1 (snd (powerbi_predict \<lparr>model = constant_classifier (1 / 2), scaler = None\<rparr> 0
         [\<lparr>nrows = 1, columns = [(''feature_1'', [Num (12 / 100)])]\<rparr>]))
       = [\<lparr>nrows = 1, columns = [(''feature_1'', [Num (12 / 100)])]\<rparr>]
   \<and> (\<exists>scores out.
        map compute_score [1 / 2] = map Inr scores
      \<and> powerbi_predict \<lparr>model = constant_classifier (1 / 2), scaler = None\<rparr> 0
           [\<lparr>nrows = 1, columns = [(''feature_1'', [Num (12 / 100)])]\<rparr>]
          = (Inr 2, [\<lparr>nrows = 1, columns = [(''feature_1'', [Num (12 / 100)])]\<rparr>,
                     \<lparr>nrows = 1, columns = [(''feature_1'', [Num (12 / 100)])]\<rparr>, out])
      \<and> columns out =
           [(''feature_1'', [Num (12 / 100)]),
            (''PD'', map Num [1 / 2]),
            (''Behavior_Score'', map Num scores),
            (''Risk_Category'', map (\<lambda>s. Str (Risk_Category_lambda s)) scores)])"
proof -
  let ?df = "\<lparr>nrows = 1, columns = [(''feature_1'', [Num (12 / 100)])]\<rparr>"
  let ?st = "\<lparr>model = constant_classifier (1 / 2), scaler = None\<rparr>"
  let ?bad = "\<lparr>model = Other, scaler = None\<rparr>"
  have 1: "heap_get [?df] 0 = Inr ?df" by (simp add: heap_get_def)
  have 2: "predict_pd ?st (df_values ?df) = Inr [1 / 2]"
    by (simp add: predict_pd_def predict_proba_def constant_classifier_def df_values_def)
  have 3: "length [1 / 2 :: real] = nrows ?df" by simp
  have 4: "set (column_names ?df) \<inter> output_names = {}"
    by (simp add: column_names_def output_names_def)
  have 5: "predict_pd ?bad (df_values ?df) = Inl AttributeError"
    by (simp add: predict_pd_def predict_proba_def)
  note t = powerbi_predict_augments [of "[?df]" ?st 0 ?df AttributeError "[1 / 2]"]
  note b = powerbi_predict_augments [of "[?df]" ?bad 0 ?df AttributeError "[1 / 2]"]
  from b 1 5 have e: "fst (powerbi_predict ?bad 0 [?df]) = Inl AttributeError"
    by blast
  from t have k: "take 1 (snd (powerbi_predict ?st 0 [?df])) = [?df]"
    by simp
  from t 1 2 3 obtain scores out where
    "map compute_score [1 / 2] = map Inr scores"
    "powerbi_predict ?st 0 [?df] = (Inr (Suc (length [?df])), [?df] @ [?df, out])"
    "set (column_names ?df) \<inter> output_names = {} \<longrightarrow>
       columns out = columns ?df @
               [(''PD'', map Num [1 / 2]),
                (''Behavior_Score'', map Num scores),
                (''Risk_Category'', map (\<lambda>s. Str (Risk_Category_lambda s)) scores)]"
    by blast
  with 4 have "\<exists>scores out.
        map compute_score [1 / 2] = map Inr scores
      \<and> powerbi_predict ?st 0 [?df] = (Inr 2, [?df, ?df, out])
      \<and> columns out =
           [(''feature_1'', [Num (12 / 100)]),
            (''PD'', map Num [1 / 2]),
            (''Behavior_Score'', map Num scores),
            (''Risk_Category'', map (\<lambda>s. Str (Risk_Category_lambda s)) scores)]"
    by (intro exI [of _ scores] exI [of _ out]) simp
  with 1 2 3 4 5 e k show ?thesis by blast
qed

end
